theory Spec2Isabelle
  imports Main "HOL-Library.Sublist"
begin

section \<open>The text of bin/AbcView/All.h\<close>

text \<open>
  The repository consists of one header, \<^verbatim>\<open>src/bin/AbcView/All.h\<close>. The header is data
  for the C preprocessor, so it is embedded as it is written: the list of its
  physical lines, in order, one string per line. The first line of the file is
  empty and the last line (the closing \<^verbatim>\<open>#endif\<close>) has no newline after it.
\<close>

definition All_h_lines :: "string list" where
  "All_h_lines =
   [ '''',
     ''#ifndef _AbcView_All_h_'',
     ''#define _AbcView_All_h_'',
     '''',
     ''#define ABCVIEW_VERSION_NS v1'',
     '''',
     ''#include <iostream>'',
     ''#include <algorithm>'',
     ''#include <math.h>'',
     '''',
     ''#include <ImathMath.h>'',
     ''#include <ImathVec.h>'',
     ''#include <ImathMatrix.h>'',
     ''#include <ImathBox.h>'',
     ''#include <ImathQuat.h>'',
     ''#include <ImathColor.h>'',
     ''#include <ImathFun.h>'',
     ''#include <ImathBoxAlgo.h>'',
     '''',
     ''#ifdef PLATFORM_DARWIN'',
     '''',
     ''#include <OpenGL/gl.h>'',
     ''#include <OpenGL/glu.h>'',
     ''#include <OpenGL/glext.h>'',
     ''#include <OpenGL/OpenGL.h>'',
     ''#include <GLUT/glut.h>'',
     '''',
     ''#else'',
     ''// http://stackoverflow.com/questions/8580675/error-gl-h-included-before-glew-h'',
     ''#include <GL/glew.h>'',
     '''',
     ''#endif // ifdef PLATFORM_DARWIN'',
     '''',
     ''#include <QtWidgets/QAction>'',
     ''#include <QtWidgets/QAbstractItemView>'',
     ''#include <QtWidgets/QDockWidget>'',
     ''#include <QtWidgets/QFileDialog>'',
     ''#include <QtWidgets/QLabel>'',
     ''#include <QtWidgets/QMenu>'',
     ''#include <QtWidgets/QMenuBar>'',
     ''#include <QtWidgets/QMainWindow>'',
     ''#include <QtWidgets/QStyleFactory>'',
     ''#include <QtWidgets/QToolBar>'',
     ''#include <QtWidgets/QTreeWidget>'',
     ''#include <QtWidgets/QTreeWidgetItem>'',
     ''#include <QtWidgets/QWidget>'',
     ''#include <QIODevice>'',
     ''#include <QFile>'',
     ''#include <QResizeEvent>'',
     ''#include <QWheelEvent>'',
     ''#include <QKeyEvent>'',
     ''#include <QMouseEvent>'',
     ''#include <QPoint>'',
     ''#include <QtOpenGL/QGLWidget>'',
     ''#include <QtOpenGL/QGLFormat>'',
     ''#include <AbcOpenGL/GLCamera.h>'',
     ''#include <AbcOpenGL/SceneWrapper.h>'',
     '''',
     ''#endif'' ]"

section \<open>Reading a line\<close>

text \<open>
  What one physical line of a C or C++ source file is to the preprocessor. The
  header uses \<^verbatim>\<open>#ifndef\<close>, \<^verbatim>\<open>#ifdef\<close>, \<^verbatim>\<open>#else\<close>, \<^verbatim>\<open>#endif\<close>, \<^verbatim>\<open>#define\<close> and
  \<^verbatim>\<open>#include <...>\<close>; every other directive is kept as \<open>OtherDirective\<close> and every
  line of program text (a declaration, a definition, a statement) as \<open>Code\<close>,
  so that nothing of a file is lost by reading it.
\<close>

datatype line =
    Blank
  | Comment string
  | Ifndef string
  | Ifdef string
  | Else
  | Endif
  | Define string string
  | Include string
  | IncludeQuoted string
  | OtherDirective string
  | Code string

definition is_space :: "char \<Rightarrow> bool" where
  "is_space c = (c = CHR '' '' \<or> c = CHR 0x09)"

definition ltrim :: "string \<Rightarrow> string" where
  "ltrim s = dropWhile is_space s"

definition rtrim :: "string \<Rightarrow> string" where
  "rtrim s = rev (dropWhile is_space (rev s))"

definition first_word :: "string \<Rightarrow> string" where
  "first_word s = takeWhile (\<lambda>c. \<not> is_space c) s"

definition after_word :: "string \<Rightarrow> string" where
  "after_word s = ltrim (dropWhile (\<lambda>c. \<not> is_space c) s)"

text \<open>The operand of \<^verbatim>\<open>#include\<close>: a name in angle brackets or in double quotes.\<close>

definition parse_include :: "string \<Rightarrow> line" where
  "parse_include r =
     (case r of
        [] \<Rightarrow> OtherDirective ''include''
      | c # cs \<Rightarrow>
          if c = CHR ''<'' \<and> CHR ''>'' \<in> set cs
            then Include (takeWhile (\<lambda>x. x \<noteq> CHR ''>'') cs)
          else if c = CHR 0x22 \<and> CHR 0x22 \<in> set cs
            then IncludeQuoted (takeWhile (\<lambda>x. x \<noteq> CHR 0x22) cs)
          else OtherDirective (''include '' @ r))"

definition parse_directive :: "string \<Rightarrow> line" where
  "parse_directive d =
     (let kw = first_word d; arg = after_word d in
      if kw = ''ifndef'' then Ifndef (first_word arg)
      else if kw = ''ifdef'' then Ifdef (first_word arg)
      else if kw = ''else'' then Else
      else if kw = ''endif'' then Endif
      else if kw = ''define'' then Define (first_word arg) (rtrim (after_word arg))
      else if kw = ''include'' then parse_include arg
      else OtherDirective d)"

definition parse_line :: "string \<Rightarrow> line" where
  "parse_line l =
     (case ltrim l of
        [] \<Rightarrow> Blank
      | c # cs \<Rightarrow>
          if c = CHR ''#'' then parse_directive (ltrim cs)
          else if c = CHR ''/'' \<and> take 1 cs = ''/'' then Comment (drop 1 cs)
          else Code (c # cs))"

definition All_h :: "line list" where
  "All_h = map parse_line All_h_lines"

section \<open>The preprocessor\<close>

text \<open>
  The macro table maps a defined name to its replacement text. What an included
  header does is not part of this file (the standard library, Imath, OpenGL, Qt
  and AbcOpenGL headers are not in the repository), so it is a parameter: a
  \<open>header_effect\<close> gives, for each header name, how including it changes the
  macro table.
\<close>

type_synonym macro_table = "string \<rightharpoonup> string"

type_synonym header_effect = "string \<Rightarrow> macro_table \<Rightarrow> macro_table"

text \<open>
  What the preprocessor does with a file is recorded as a trace: the macros the
  file itself defines, the headers it includes, and the lines of program text it
  hands on to the compiler, in order.
\<close>

datatype event =
    Defines string string
  | Includes string
  | Emits string

datatype pp_error =
    ElseWithoutIf
  | ElseAfterElse
  | EndifWithoutIf
  | UnterminatedIf
  | Unsupported string

text \<open>
  One open conditional: \<open>live\<close> says whether its current branch is compiled,
  \<open>outer\<close> whether the text around the conditional is compiled, \<open>in_else\<close>
  whether its \<^verbatim>\<open>#else\<close> has been passed.
\<close>

datatype cond = Cond (live: bool) (outer: bool) (in_else: bool)

record pp_state =
  macros :: macro_table
  conds :: "cond list"
  trace :: "event list"

fun active :: "cond list \<Rightarrow> bool" where
  "active [] = True"
| "active (c # cs) = live c"

definition is_defined :: "macro_table \<Rightarrow> string \<Rightarrow> bool" where
  "is_defined m n = (m n \<noteq> None)"

text \<open>
  One line. In a skipped branch a \<^verbatim>\<open>#define\<close>, an \<^verbatim>\<open>#include\<close> and program text do
  nothing, and the conditional directives only keep the nesting. A \<^verbatim>\<open>#define\<close> of
  a name that is already defined replaces the definition. A directive outside
  the six the model reads stops the run, wherever it stands.
\<close>

fun step :: "header_effect \<Rightarrow> line \<Rightarrow> pp_state \<Rightarrow> pp_error + pp_state" where
  "step eff Blank s = Inr s"
| "step eff (Comment c) s = Inr s"
| "step eff (Ifndef n) s =
     Inr (s\<lparr>conds :=
       Cond (active (conds s) \<and> \<not> is_defined (macros s) n) (active (conds s)) False # conds s\<rparr>)"
| "step eff (Ifdef n) s =
     Inr (s\<lparr>conds :=
       Cond (active (conds s) \<and> is_defined (macros s) n) (active (conds s)) False # conds s\<rparr>)"
| "step eff Else s =
     (case conds s of
        [] \<Rightarrow> Inl ElseWithoutIf
      | c # cs \<Rightarrow>
          if in_else c then Inl ElseAfterElse
          else Inr (s\<lparr>conds := Cond (outer c \<and> \<not> live c) (outer c) True # cs\<rparr>))"
| "step eff Endif s =
     (case conds s of
        [] \<Rightarrow> Inl EndifWithoutIf
      | c # cs \<Rightarrow> Inr (s\<lparr>conds := cs\<rparr>))"
| "step eff (Define n v) s =
     (if active (conds s)
      then Inr (s\<lparr>macros := (macros s)(n \<mapsto> v), trace := trace s @ [Defines n v]\<rparr>)
      else Inr s)"
| "step eff (Include h) s =
     (if active (conds s)
      then Inr (s\<lparr>macros := eff h (macros s), trace := trace s @ [Includes h]\<rparr>)
      else Inr s)"
| "step eff (IncludeQuoted h) s =
     (if active (conds s)
      then Inr (s\<lparr>macros := eff h (macros s), trace := trace s @ [Includes h]\<rparr>)
      else Inr s)"
| "step eff (OtherDirective d) s = Inl (Unsupported d)"
| "step eff (Code t) s =
     (if active (conds s) then Inr (s\<lparr>trace := trace s @ [Emits t]\<rparr>) else Inr s)"

fun run :: "header_effect \<Rightarrow> line list \<Rightarrow> pp_state \<Rightarrow> pp_error + pp_state" where
  "run eff [] s = Inr s"
| "run eff (l # ls) s =
     (case step eff l s of
        Inl e \<Rightarrow> Inl e
      | Inr s' \<Rightarrow> run eff ls s')"

definition initial :: "macro_table \<Rightarrow> pp_state" where
  "initial m = \<lparr>macros = m, conds = [], trace = []\<rparr>"

text \<open>
  Including a file in a translation unit whose macro table is \<open>m\<close>: the macro
  table afterwards and the trace of the file, or the error that stops the build.
\<close>

definition include_file ::
  "header_effect \<Rightarrow> line list \<Rightarrow> macro_table \<Rightarrow> pp_error + (macro_table \<times> event list)" where
  "include_file eff ls m =
     (case run eff ls (initial m) of
        Inl e \<Rightarrow> Inl e
      | Inr s \<Rightarrow> if conds s = [] then Inr (macros s, trace s) else Inl UnterminatedIf)"

definition include_All_h ::
  "header_effect \<Rightarrow> macro_table \<Rightarrow> pp_error + (macro_table \<times> event list)" where
  "include_All_h eff m = include_file eff All_h m"

text \<open>The macro table just before line \<open>k\<close> of the header is read (lines count from 1).\<close>

definition macros_before_line ::
  "header_effect \<Rightarrow> nat \<Rightarrow> macro_table \<Rightarrow> macro_table option" where
  "macros_before_line eff k m =
     (case run eff (take (k - 1) All_h) (initial m) of
        Inl e \<Rightarrow> None
      | Inr s \<Rightarrow> Some (macros s))"

text \<open>
  Whether the test of line 20, \<^verbatim>\<open>#ifdef PLATFORM_DARWIN\<close>, finds the macro defined.
\<close>

definition darwin_at_test :: "header_effect \<Rightarrow> macro_table \<Rightarrow> bool" where
  "darwin_at_test eff m =
     (case macros_before_line eff 20 m of
        None \<Rightarrow> False
      | Some t \<Rightarrow> is_defined t ''PLATFORM_DARWIN'')"

text \<open>Headers that leave the macro table alone.\<close>

definition no_effect :: header_effect where
  "no_effect h m = m"

text \<open>
  A behaviour of the dependency headers under which macro \<open>g\<close>, once defined,
  stays defined: no header undefines it.
\<close>

definition keeps_macro :: "header_effect \<Rightarrow> string \<Rightarrow> bool" where
  "keeps_macro eff g = (\<forall>h t. is_defined t g \<longrightarrow> is_defined (eff h t) g)"

text \<open>The headers a trace includes, in order.\<close>

fun included :: "event list \<Rightarrow> string list" where
  "included [] = []"
| "included (Includes h # es) = h # included es"
| "included (e # es) = included es"

text \<open>
  The header's own parts, for the statements below: the headers of lines 7 to 18,
  of the two branches of the conditional, and of lines 34 to 57. That these are
  the parts of the file is lemma \<open>first_inclusion\<close>.
\<close>

definition leading_headers :: "string list" where
  "leading_headers =
   [ ''iostream'', ''algorithm'', ''math.h'',
     ''ImathMath.h'', ''ImathVec.h'', ''ImathMatrix.h'', ''ImathBox.h'', ''ImathQuat.h'',
     ''ImathColor.h'', ''ImathFun.h'', ''ImathBoxAlgo.h'' ]"

definition darwin_headers :: "string list" where
  "darwin_headers =
   [ ''OpenGL/gl.h'', ''OpenGL/glu.h'', ''OpenGL/glext.h'', ''OpenGL/OpenGL.h'',
     ''GLUT/glut.h'' ]"

definition glew_headers :: "string list" where
  "glew_headers = [ ''GL/glew.h'' ]"

definition trailing_headers :: "string list" where
  "trailing_headers =
   [ ''QtWidgets/QAction'', ''QtWidgets/QAbstractItemView'', ''QtWidgets/QDockWidget'',
     ''QtWidgets/QFileDialog'', ''QtWidgets/QLabel'', ''QtWidgets/QMenu'',
     ''QtWidgets/QMenuBar'', ''QtWidgets/QMainWindow'', ''QtWidgets/QStyleFactory'',
     ''QtWidgets/QToolBar'', ''QtWidgets/QTreeWidget'', ''QtWidgets/QTreeWidgetItem'',
     ''QtWidgets/QWidget'', ''QIODevice'', ''QFile'', ''QResizeEvent'', ''QWheelEvent'',
     ''QKeyEvent'', ''QMouseEvent'', ''QPoint'', ''QtOpenGL/QGLWidget'',
     ''QtOpenGL/QGLFormat'', ''AbcOpenGL/GLCamera.h'', ''AbcOpenGL/SceneWrapper.h'' ]"

definition platform_headers :: "bool \<Rightarrow> string list" where
  "platform_headers darwin = (if darwin then darwin_headers else glew_headers)"

definition own_macros :: "macro_table \<Rightarrow> macro_table" where
  "own_macros m = m(''_AbcView_All_h_'' \<mapsto> '''', ''ABCVIEW_VERSION_NS'' \<mapsto> ''v1'')"

text \<open>
  The headers of an inclusion that succeeds, in the order they are included;
  \<open>None\<close> when the preprocessor stops with an error.
\<close>

definition included_headers :: "header_effect \<Rightarrow> macro_table \<Rightarrow> string list option" where
  "included_headers eff m =
     (case include_All_h eff m of
        Inl e \<Rightarrow> None
      | Inr (m', tr) \<Rightarrow> Some (included tr))"

text \<open>The program text an inclusion hands on to the compiler.\<close>

fun emitted :: "event list \<Rightarrow> string list" where
  "emitted [] = []"
| "emitted (Emits t # es) = t # emitted es"
| "emitted (e # es) = emitted es"

text \<open>
  Including the header \<open>n\<close> times in a row in one translation unit: each
  inclusion starts from the macro table the one before left, and the traces
  follow each other.
\<close>

fun include_times ::
  "nat \<Rightarrow> header_effect \<Rightarrow> macro_table \<Rightarrow> pp_error + (macro_table \<times> event list)" where
  "include_times 0 eff m = Inr (m, [])"
| "include_times (Suc n) eff m =
     (case include_All_h eff m of
        Inl e \<Rightarrow> Inl e
      | Inr (m', tr) \<Rightarrow>
          (case include_times n eff m' of
             Inl e \<Rightarrow> Inl e
           | Inr (m'', tr') \<Rightarrow> Inr (m'', tr @ tr')))"

section \<open>The text of the header, statically\<close>

text \<open>The headers the include directives of a file name, whatever branch they stand in.\<close>

fun named_headers :: "line list \<Rightarrow> string list" where
  "named_headers [] = []"
| "named_headers (Include h # ls) = h # named_headers ls"
| "named_headers (IncludeQuoted h # ls) = h # named_headers ls"
| "named_headers (l # ls) = named_headers ls"

text \<open>The lines of program text of a file, and the directives the model does not read.\<close>

fun program_text :: "line list \<Rightarrow> string list" where
  "program_text [] = []"
| "program_text (Code t # ls) = t # program_text ls"
| "program_text (OtherDirective d # ls) = d # program_text ls"
| "program_text (l # ls) = program_text ls"

fun directives :: "line list \<Rightarrow> line list" where
  "directives [] = []"
| "directives (Blank # ls) = directives ls"
| "directives (Comment c # ls) = directives ls"
| "directives (l # ls) = l # directives ls"

text \<open>
  \<open>balanced d ls\<close>: starting inside \<open>d\<close> open conditionals, the directives \<open>ls\<close>
  close only what is open and leave nothing open.
\<close>

fun balanced :: "nat \<Rightarrow> line list \<Rightarrow> bool" where
  "balanced d [] = (d = 0)"
| "balanced d (Ifndef n # ls) = balanced (Suc d) ls"
| "balanced d (Ifdef n # ls) = balanced (Suc d) ls"
| "balanced d (Else # ls) = (0 < d \<and> balanced d ls)"
| "balanced d (Endif # ls) = (0 < d \<and> balanced (d - 1) ls)"
| "balanced d (l # ls) = balanced d ls"

text \<open>
  The include guard of a file, if it has one: the first directive tests a macro
  with \<^verbatim>\<open>#ifndef\<close>, the second defines that macro, and the last directive is the
  \<^verbatim>\<open>#endif\<close> of the first.
\<close>

definition guard_of :: "line list \<Rightarrow> string option" where
  "guard_of ls =
     (case directives ls of
        Ifndef g # Define g' v # rest \<Rightarrow>
          if g' = g \<and> rest \<noteq> [] \<and> last rest = Endif \<and> balanced 0 (butlast rest)
          then Some g else None
      | _ \<Rightarrow> None)"

text \<open>
  A line of a pure inclusion manifest with guard \<open>g\<close>: an include, a directive
  of the include guard, a directive of a conditional on a platform macro, or no
  directive at all (an empty line, a comment).
\<close>

fun pure_inclusion :: "string \<Rightarrow> line \<Rightarrow> bool" where
  "pure_inclusion g Blank = True"
| "pure_inclusion g (Comment c) = True"
| "pure_inclusion g (Include h) = True"
| "pure_inclusion g (IncludeQuoted h) = True"
| "pure_inclusion g (Ifndef n) = (n = g)"
| "pure_inclusion g (Define n v) = (n = g \<and> v = [])"
| "pure_inclusion g (Ifdef n) = prefix ''PLATFORM_'' n"
| "pure_inclusion g Else = True"
| "pure_inclusion g Endif = True"
| "pure_inclusion g (OtherDirective d) = False"
| "pure_inclusion g (Code t) = False"

section \<open>The dependency classes of the specification\<close>

text \<open>
  The specification sorts the dependencies into math primitives (the Imath
  library), the native rendering API (OpenGL, GLU, GLUT, GLEW), the GUI toolkit
  (Qt) and the collaborator headers (AbcOpenGL). The standard library headers of
  lines 7 to 9 are a class of their own here. A header is sorted by its name.
\<close>

datatype dep_class =
    StandardLibrary
  | MathPrimitives
  | NativeRendering
  | GuiToolkit
  | Collaborator
  | Unclassified

definition dep_class_of :: "string \<Rightarrow> dep_class" where
  "dep_class_of h =
     (if h = ''iostream'' \<or> h = ''algorithm'' \<or> h = ''math.h'' then StandardLibrary
      else if prefix ''Imath'' h then MathPrimitives
      else if prefix ''OpenGL/'' h \<or> prefix ''GLUT/'' h \<or> prefix ''GL/'' h then NativeRendering
      else if prefix ''AbcOpenGL/'' h then Collaborator
      else if prefix ''Q'' h then GuiToolkit
      else Unclassified)"

definition of_class :: "dep_class \<Rightarrow> string list \<Rightarrow> string list" where
  "of_class c hs = filter (\<lambda>h. dep_class_of h = c) hs"

text \<open>The last component of a header's path: the class a Qt header is named after.\<close>

definition base_name :: "string \<Rightarrow> string" where
  "base_name h = rev (takeWhile (\<lambda>c. c \<noteq> CHR ''/'') (rev h))"

text \<open>
  The specification's enumeration of the GUI toolkit classes, in its words, each
  with the Qt class it stands for.
\<close>

definition gui_enumeration :: "(string \<times> string) list" where
  "gui_enumeration =
   [ (''action'', ''QAction''),
     (''abstract item view'', ''QAbstractItemView''),
     (''dock widget'', ''QDockWidget''),
     (''file dialog'', ''QFileDialog''),
     (''label'', ''QLabel''),
     (''menu'', ''QMenu''),
     (''menu bar'', ''QMenuBar''),
     (''main window'', ''QMainWindow''),
     (''style factory'', ''QStyleFactory''),
     (''toolbar'', ''QToolBar''),
     (''tree widget'', ''QTreeWidget''),
     (''tree widget item'', ''QTreeWidgetItem''),
     (''generic widget'', ''QWidget''),
     (''I/O device'', ''QIODevice''),
     (''file'', ''QFile''),
     (''resize event'', ''QResizeEvent''),
     (''wheel event'', ''QWheelEvent''),
     (''key event'', ''QKeyEvent''),
     (''mouse event'', ''QMouseEvent''),
     (''point'', ''QPoint''),
     (''GL-capable widget'', ''QGLWidget''),
     (''GL format'', ''QGLFormat'') ]"

text \<open>
  The specification's categories of math primitives, and the category an Imath
  header provides: \<^verbatim>\<open>ImathFun.h\<close> holds the interpolation helpers (lerp, clamp),
  \<^verbatim>\<open>ImathBoxAlgo.h\<close> the box algebra. A header of none of the categories has \<open>None\<close>.
\<close>

datatype math_category =
    Vector
  | Matrix
  | Box
  | Quaternion
  | Color
  | Interpolation
  | BoxAlgebra

definition math_category_of :: "string \<Rightarrow> math_category option" where
  "math_category_of h =
     (if h = ''ImathVec.h'' then Some Vector
      else if h = ''ImathMatrix.h'' then Some Matrix
      else if h = ''ImathBox.h'' then Some Box
      else if h = ''ImathQuat.h'' then Some Quaternion
      else if h = ''ImathColor.h'' then Some Color
      else if h = ''ImathFun.h'' then Some Interpolation
      else if h = ''ImathBoxAlgo.h'' then Some BoxAlgebra
      else None)"

definition with_category :: "string \<Rightarrow> string \<times> math_category option" where
  "with_category h = (h, math_category_of h)"



section \<open>The check at the head of GL/glew.h\<close>



section \<open>Reading the header\<close>

lemma All_h_parsed:
  "All_h =
   [ Blank,
     Ifndef ''_AbcView_All_h_'',
     Define ''_AbcView_All_h_'' '''',
     Blank,
     Define ''ABCVIEW_VERSION_NS'' ''v1'',
     Blank,
     Include ''iostream'',
     Include ''algorithm'',
     Include ''math.h'',
     Blank,
     Include ''ImathMath.h'',
     Include ''ImathVec.h'',
     Include ''ImathMatrix.h'',
     Include ''ImathBox.h'',
     Include ''ImathQuat.h'',
     Include ''ImathColor.h'',
     Include ''ImathFun.h'',
     Include ''ImathBoxAlgo.h'',
     Blank,
     Ifdef ''PLATFORM_DARWIN'',
     Blank,
     Include ''OpenGL/gl.h'',
     Include ''OpenGL/glu.h'',
     Include ''OpenGL/glext.h'',
     Include ''OpenGL/OpenGL.h'',
     Include ''GLUT/glut.h'',
     Blank,
     Else,
     Comment '' http://stackoverflow.com/questions/8580675/error-gl-h-included-before-glew-h'',
     Include ''GL/glew.h'',
     Blank,
     Endif,
     Blank,
     Include ''QtWidgets/QAction'',
     Include ''QtWidgets/QAbstractItemView'',
     Include ''QtWidgets/QDockWidget'',
     Include ''QtWidgets/QFileDialog'',
     Include ''QtWidgets/QLabel'',
     Include ''QtWidgets/QMenu'',
     Include ''QtWidgets/QMenuBar'',
     Include ''QtWidgets/QMainWindow'',
     Include ''QtWidgets/QStyleFactory'',
     Include ''QtWidgets/QToolBar'',
     Include ''QtWidgets/QTreeWidget'',
     Include ''QtWidgets/QTreeWidgetItem'',
     Include ''QtWidgets/QWidget'',
     Include ''QIODevice'',
     Include ''QFile'',
     Include ''QResizeEvent'',
     Include ''QWheelEvent'',
     Include ''QKeyEvent'',
     Include ''QMouseEvent'',
     Include ''QPoint'',
     Include ''QtOpenGL/QGLWidget'',
     Include ''QtOpenGL/QGLFormat'',
     Include ''AbcOpenGL/GLCamera.h'',
     Include ''AbcOpenGL/SceneWrapper.h'',
     Blank,
     Endif ]"
  unfolding All_h_def All_h_lines_def
  by (simp add: parse_line_def parse_directive_def parse_include_def ltrim_def rtrim_def
      first_word_def after_word_def is_space_def)

subsection \<open>A repeated inclusion\<close>

lemma guarded_run:
  assumes "is_defined m ''_AbcView_All_h_''"
  shows "run eff All_h (initial m) = Inr (initial m)"
  using assms unfolding All_h_parsed initial_def by simp

lemma guarded_inclusion:
  assumes "is_defined m ''_AbcView_All_h_''"
  shows "include_All_h eff m = Inr (m, [])"
  unfolding include_All_h_def include_file_def guarded_run [OF assms]
  by (simp add: initial_def)

subsection \<open>The first inclusion\<close>

lemma macros_at_test:
  assumes "\<not> is_defined m ''_AbcView_All_h_''"
  shows "macros_before_line eff 20 m = Some (fold eff leading_headers (own_macros m))"
  using assms unfolding macros_before_line_def All_h_parsed initial_def
  by (simp add: leading_headers_def own_macros_def)

lemma darwin_at_test_eq:
  assumes "\<not> is_defined m ''_AbcView_All_h_''"
  shows "darwin_at_test eff m
     = is_defined (fold eff leading_headers (own_macros m)) ''PLATFORM_DARWIN''"
  unfolding darwin_at_test_def macros_at_test [OF assms] by simp

lemma first_run:
  assumes "\<not> is_defined m ''_AbcView_All_h_''"
  shows "run eff All_h (initial m) =
    Inr \<lparr> macros = fold eff (leading_headers @ platform_headers (darwin_at_test eff m)
                               @ trailing_headers) (own_macros m),
          conds = [],
          trace = Defines ''_AbcView_All_h_'' '''' # Defines ''ABCVIEW_VERSION_NS'' ''v1''
                  # map Includes (leading_headers @ platform_headers (darwin_at_test eff m)
                                  @ trailing_headers) \<rparr>"
proof (cases "darwin_at_test eff m")
  case True
  then have d: "is_defined (fold eff leading_headers (own_macros m)) ''PLATFORM_DARWIN''"
    using darwin_at_test_eq [OF assms] by simp
  show ?thesis
    using assms d True unfolding All_h_parsed initial_def
    by (simp add: leading_headers_def trailing_headers_def platform_headers_def
        darwin_headers_def own_macros_def)
next
  case False
  then have d: "\<not> is_defined (fold eff leading_headers (own_macros m)) ''PLATFORM_DARWIN''"
    using darwin_at_test_eq [OF assms] by simp
  show ?thesis
    using assms d False unfolding All_h_parsed initial_def
    by (simp add: leading_headers_def trailing_headers_def platform_headers_def
        glew_headers_def own_macros_def)
qed

lemma first_inclusion:
  assumes "\<not> is_defined m ''_AbcView_All_h_''"
  shows "include_All_h eff m =
    Inr (fold eff (leading_headers @ platform_headers (darwin_at_test eff m)
                   @ trailing_headers) (own_macros m),
         Defines ''_AbcView_All_h_'' '''' # Defines ''ABCVIEW_VERSION_NS'' ''v1''
         # map Includes (leading_headers @ platform_headers (darwin_at_test eff m)
                         @ trailing_headers))"
  unfolding include_All_h_def include_file_def first_run [OF assms] by simp

subsection \<open>The headers of an inclusion, by class\<close>

lemma included_map_Includes: "included (map Includes hs) = hs"
  by (induction hs) simp_all

lemma emitted_map_Includes: "emitted (map Includes hs) = []"
  by (induction hs) simp_all

lemma included_headers_guarded:
  assumes "is_defined m ''_AbcView_All_h_''"
  shows "included_headers eff m = Some []"
  unfolding included_headers_def guarded_inclusion [OF assms] by simp

lemma included_headers_first:
  assumes "\<not> is_defined m ''_AbcView_All_h_''"
  shows "included_headers eff m
     = Some (leading_headers @ platform_headers (darwin_at_test eff m) @ trailing_headers)"
  unfolding included_headers_def first_inclusion [OF assms]
  by (simp add: included_map_Includes del: map_append)

lemma named_headers_All_h:
  "named_headers All_h = leading_headers @ darwin_headers @ glew_headers @ trailing_headers"
  unfolding All_h_parsed
  by (simp add: leading_headers_def darwin_headers_def glew_headers_def trailing_headers_def)

lemma of_class_append: "of_class c (xs @ ys) = of_class c xs @ of_class c ys"
  by (simp add: of_class_def)

lemma class_leading:
  "of_class c leading_headers =
     (if c = StandardLibrary then [''iostream'', ''algorithm'', ''math.h'']
      else if c = MathPrimitives then
        [''ImathMath.h'', ''ImathVec.h'', ''ImathMatrix.h'', ''ImathBox.h'', ''ImathQuat.h'',
         ''ImathColor.h'', ''ImathFun.h'', ''ImathBoxAlgo.h'']
      else [])"
  by (simp add: of_class_def leading_headers_def dep_class_of_def)

lemma class_darwin:
  "of_class c darwin_headers = (if c = NativeRendering then darwin_headers else [])"
  by (simp add: of_class_def darwin_headers_def dep_class_of_def)

lemma class_glew:
  "of_class c glew_headers = (if c = NativeRendering then glew_headers else [])"
  by (simp add: of_class_def glew_headers_def dep_class_of_def)

lemma class_platform:
  "of_class c (platform_headers b) = (if c = NativeRendering then platform_headers b else [])"
  by (simp add: platform_headers_def class_darwin class_glew)

lemma class_trailing:
  "of_class c trailing_headers =
     (if c = GuiToolkit then take 22 trailing_headers
      else if c = Collaborator then drop 22 trailing_headers
      else [])"
  by (simp add: of_class_def trailing_headers_def dep_class_of_def)

lemma no_effect_darwin_at_test:
  assumes "\<not> is_defined m ''_AbcView_All_h_''"
  shows "darwin_at_test no_effect m = is_defined m ''PLATFORM_DARWIN''"
  unfolding darwin_at_test_eq [OF assms]
  by (simp add: leading_headers_def no_effect_def own_macros_def is_defined_def)

lemma empty_table_unguarded: "\<not> is_defined Map.empty ''_AbcView_All_h_''"
  by (simp add: is_defined_def)

lemma empty_table_not_darwin: "\<not> darwin_at_test no_effect Map.empty"
  unfolding no_effect_darwin_at_test [OF empty_table_unguarded] by (simp add: is_defined_def)

lemma darwin_table_unguarded:
  "\<not> is_defined [''PLATFORM_DARWIN'' \<mapsto> ''1''] ''_AbcView_All_h_''"
  by (simp add: is_defined_def)

lemma darwin_table_darwin: "darwin_at_test no_effect [''PLATFORM_DARWIN'' \<mapsto> ''1'']"
  unfolding no_effect_darwin_at_test [OF darwin_table_unguarded] by (simp add: is_defined_def)

section \<open>The platform selection (claim C1)\<close>

text \<open>
  Claim C1, as the code has it. Whenever the body of the header is compiled (the
  include guard is not yet defined), the headers of the native rendering API it
  includes are decided by the test of line 20 alone: if \<^verbatim>\<open>PLATFORM_DARWIN\<close> is
  defined there, they are the five headers of the Darwin branch (OpenGL's
  \<^verbatim>\<open>gl.h\<close>, \<^verbatim>\<open>glu.h\<close>, \<^verbatim>\<open>glext.h\<close>, \<^verbatim>\<open>OpenGL.h\<close> and \<^verbatim>\<open>GLUT/glut.h\<close>), and in every
  other case the one header \<^verbatim>\<open>GL/glew.h\<close>. So exactly one of the two branches is
  included, whatever the dependency headers do to the macro table.
\<close>

theorem platform_selection:
  assumes "\<not> is_defined m ''_AbcView_All_h_''"
  shows "map_option (of_class NativeRendering) (included_headers eff m) =
     Some (if darwin_at_test eff m
           then [''OpenGL/gl.h'', ''OpenGL/glu.h'', ''OpenGL/glext.h'', ''OpenGL/OpenGL.h'',
                 ''GLUT/glut.h'']
           else [''GL/glew.h''])"
  unfolding included_headers_first [OF assms]
  by (simp add: of_class_append class_leading class_platform class_trailing)
    (simp add: platform_headers_def darwin_headers_def glew_headers_def)

text \<open>
  The theorem at a Darwin build: \<^verbatim>\<open>-DPLATFORM_DARWIN=1\<close> on the command line and
  dependency headers that leave the macro table alone.
\<close>

theorem platform_selection_darwin_witness:
  "\<not> is_defined [''PLATFORM_DARWIN'' \<mapsto> ''1''] ''_AbcView_All_h_''
   \<and> darwin_at_test no_effect [''PLATFORM_DARWIN'' \<mapsto> ''1'']
   \<and> map_option (of_class NativeRendering)
        (included_headers no_effect [''PLATFORM_DARWIN'' \<mapsto> ''1'']) =
      Some [''OpenGL/gl.h'', ''OpenGL/glu.h'', ''OpenGL/glext.h'', ''OpenGL/OpenGL.h'',
            ''GLUT/glut.h'']"
  using darwin_table_unguarded darwin_table_darwin
    platform_selection [OF darwin_table_unguarded, of no_effect]
  by simp

text \<open>
  Claim C1 as the specification words it has the other branch include GLEW
  \<^emph>\<open>plus generic OpenGL headers\<close>. The branch between \<^verbatim>\<open>#else\<close> (line 28) and
  \<^verbatim>\<open>#endif\<close> (line 32) names \<^verbatim>\<open>GL/glew.h\<close> and nothing else, and a build without
  \<^verbatim>\<open>PLATFORM_DARWIN\<close> includes no other header of the native rendering API.
\<close>

theorem glew_alone_counterexample:
  "\<not> darwin_at_test no_effect Map.empty
   \<and> map_option (of_class NativeRendering) (included_headers no_effect Map.empty)
       = Some [''GL/glew.h'']
   \<and> All_h ! 27 = Else
   \<and> named_headers (take 3 (drop 28 All_h)) = [''GL/glew.h'']
   \<and> All_h ! 31 = Endif"
proof -
  have h: "map_option (of_class NativeRendering) (included_headers no_effect Map.empty)
       = Some [''GL/glew.h'']"
    unfolding included_headers_first [OF empty_table_unguarded]
    using empty_table_not_darwin
    by (simp add: of_class_append class_leading class_platform class_trailing)
      (simp add: platform_headers_def glew_headers_def)
  have t: "All_h ! 27 = Else \<and> named_headers (take 3 (drop 28 All_h)) = [''GL/glew.h'']
     \<and> All_h ! 31 = Endif"
    unfolding All_h_parsed by simp
  show ?thesis using empty_table_not_darwin h t by simp
qed

section \<open>The shape of the file (claims C2 and C4)\<close>

text \<open>
  Claim C2, as the code has it. The file is 59 lines long. Every line of it is an
  \<^verbatim>\<open>#include\<close>, a directive of the include guard \<^verbatim>\<open>_AbcView_All_h_\<close>, a directive of
  the conditional on \<^verbatim>\<open>PLATFORM_DARWIN\<close>, an empty line or a comment, with one
  exception: line 5, \<^verbatim>\<open>#define ABCVIEW_VERSION_NS v1\<close>, which defines a macro of the
  header's own. No line is program text.
\<close>

theorem inclusion_manifest:
  "length All_h_lines = 59
   \<and> filter (\<lambda>l. \<not> pure_inclusion ''_AbcView_All_h_'' l) All_h
       = [Define ''ABCVIEW_VERSION_NS'' ''v1'']
   \<and> program_text All_h = []"
proof -
  have "length All_h_lines = 59"
    unfolding All_h_lines_def by simp
  moreover have "filter (\<lambda>l. \<not> pure_inclusion ''_AbcView_All_h_'' l) All_h
       = [Define ''ABCVIEW_VERSION_NS'' ''v1'']"
    unfolding All_h_parsed by simp
  moreover have "program_text All_h = []"
    unfolding All_h_parsed by simp
  ultimately show ?thesis by simp
qed

text \<open>
  Claim C2 as the specification words it fails twice: the file has 59 lines, not
  60, and its fifth line is a directive that is neither an include nor part of
  the guard or of the platform conditional.
\<close>

theorem inclusion_manifest_counterexample:
  "length All_h_lines \<noteq> 60
   \<and> All_h_lines ! 4 = ''#define ABCVIEW_VERSION_NS v1''
   \<and> parse_line (All_h_lines ! 4) = Define ''ABCVIEW_VERSION_NS'' ''v1''
   \<and> \<not> pure_inclusion ''_AbcView_All_h_'' (parse_line (All_h_lines ! 4))"
proof -
  have l: "All_h_lines ! 4 = ''#define ABCVIEW_VERSION_NS v1''"
    unfolding All_h_lines_def by simp
  have p: "parse_line ''#define ABCVIEW_VERSION_NS v1'' = Define ''ABCVIEW_VERSION_NS'' ''v1''"
    by (simp add: parse_line_def parse_directive_def ltrim_def rtrim_def
        first_word_def after_word_def is_space_def)
  have n: "length All_h_lines \<noteq> 60"
    unfolding All_h_lines_def by simp
  show ?thesis unfolding l p using n by simp
qed

text \<open>
  Claim C4. The header declares no structure, class or data type and defines no
  operation: no line of the file is program text, and an inclusion of it, from
  any macro table and with any dependency headers, succeeds and hands no program
  text to the compiler. Its trace holds only macro definitions and inclusions
  of other headers, so every declaration a consumer sees comes from an included
  header. (The two preprocessor macros the file defines are the subject of
  claims C8 and C9.)
\<close>

theorem no_declarations:
  "program_text All_h = []
   \<and> (\<exists>m' tr. include_All_h eff m = Inr (m', tr) \<and> emitted tr = [])"
proof -
  have t: "program_text All_h = []"
    unfolding All_h_parsed by simp
  have "\<exists>m' tr. include_All_h eff m = Inr (m', tr) \<and> emitted tr = []"
  proof (cases "is_defined m ''_AbcView_All_h_''")
    case True
    then show ?thesis by (simp add: guarded_inclusion)
  next
    case False
    then show ?thesis by (simp add: first_inclusion emitted_map_Includes del: map_append)
  qed
  with t show ?thesis by simp
qed

section \<open>The dependencies by class (claims C3, C5 and C6)\<close>

text \<open>
  Claim C3. The include directives of the header name exactly two collaborator
  headers, \<^verbatim>\<open>AbcOpenGL/GLCamera.h\<close> and \<^verbatim>\<open>AbcOpenGL/SceneWrapper.h\<close>; no header it names
  is left outside the classes (so none is a collaborator of another kind); and
  every compilation of the header body includes exactly these two.
\<close>

theorem collaborator_headers:
  "of_class Collaborator (named_headers All_h)
     = [''AbcOpenGL/GLCamera.h'', ''AbcOpenGL/SceneWrapper.h'']
   \<and> of_class Unclassified (named_headers All_h) = []
   \<and> map_option (of_class Collaborator) (included_headers eff m)
     = Some (if is_defined m ''_AbcView_All_h_'' then []
             else [''AbcOpenGL/GLCamera.h'', ''AbcOpenGL/SceneWrapper.h''])"
proof -
  have a: "of_class Collaborator (named_headers All_h)
     = [''AbcOpenGL/GLCamera.h'', ''AbcOpenGL/SceneWrapper.h'']"
    unfolding named_headers_All_h
    by (simp add: of_class_append class_leading class_darwin class_glew class_trailing)
      (simp add: trailing_headers_def)
  have b: "of_class Unclassified (named_headers All_h) = []"
    unfolding named_headers_All_h
    by (simp add: of_class_append class_leading class_darwin class_glew class_trailing)
  have c: "map_option (of_class Collaborator) (included_headers eff m)
     = Some (if is_defined m ''_AbcView_All_h_'' then []
             else [''AbcOpenGL/GLCamera.h'', ''AbcOpenGL/SceneWrapper.h''])"
  proof (cases "is_defined m ''_AbcView_All_h_''")
    case True
    then show ?thesis by (simp add: included_headers_guarded of_class_def)
  next
    case False
    then show ?thesis
      by (simp add: included_headers_first of_class_append class_leading class_platform
          class_trailing) (simp add: trailing_headers_def)
  qed
  from a b c show ?thesis by simp
qed

text \<open>
  Claim C5. The Qt headers the file includes are, one for one and in the order of
  the specification's enumeration, the headers of the 22 classes it lists: each
  listed class has its include, and there is no Qt include of an unlisted class.
\<close>

theorem gui_toolkit_headers:
  "map base_name (of_class GuiToolkit (named_headers All_h)) = map snd gui_enumeration
   \<and> length gui_enumeration = 22
   \<and> distinct (map fst gui_enumeration)
   \<and> distinct (map snd gui_enumeration)"
proof -
  have a: "map base_name (of_class GuiToolkit (named_headers All_h)) = map snd gui_enumeration"
    unfolding named_headers_All_h
    by (simp add: of_class_append class_leading class_darwin class_glew class_trailing)
      (simp add: trailing_headers_def gui_enumeration_def base_name_def)
  have b: "length gui_enumeration = 22"
    by (simp add: gui_enumeration_def)
  have c: "distinct (map fst gui_enumeration)"
    by (simp add: gui_enumeration_def)
  have d: "distinct (map snd gui_enumeration)"
    by (simp add: gui_enumeration_def)
  from a b c d show ?thesis by simp
qed

text \<open>
  Claim C6, as the code has it. The file includes eight headers of the math
  library. Seven of them provide, one each, the seven categories the
  specification lists (vector, matrix, box, quaternion, color, interpolation
  helpers, box-algebra helpers); the eighth, \<^verbatim>\<open>ImathMath.h\<close>, included first,
  belongs to none of the listed categories.
\<close>

theorem math_headers:
  "map with_category (of_class MathPrimitives (named_headers All_h)) =
     [ (''ImathMath.h'', None),
       (''ImathVec.h'', Some Vector),
       (''ImathMatrix.h'', Some Matrix),
       (''ImathBox.h'', Some Box),
       (''ImathQuat.h'', Some Quaternion),
       (''ImathColor.h'', Some Color),
       (''ImathFun.h'', Some Interpolation),
       (''ImathBoxAlgo.h'', Some BoxAlgebra) ]"
  unfolding named_headers_All_h
  by (simp add: of_class_append class_leading class_darwin class_glew class_trailing)
    (simp add: with_category_def math_category_of_def)

text \<open>
  Claim C6 as the specification words it allows no math-library header outside
  the listed categories; line 11 includes \<^verbatim>\<open>ImathMath.h\<close>.
\<close>

theorem math_headers_counterexample:
  "All_h ! 10 = Include ''ImathMath.h''
   \<and> dep_class_of ''ImathMath.h'' = MathPrimitives
   \<and> math_category_of ''ImathMath.h'' = None"
  unfolding All_h_parsed
  by (simp add: dep_class_of_def math_category_of_def)

section \<open>The macros of the header (claims C8 and C9)\<close>

text \<open>
  Claim C8. When the body of the header is compiled (the guard is not yet
  defined), the header defines its guard and then exactly one more macro,
  \<^verbatim>\<open>ABCVIEW_VERSION_NS\<close> with the replacement text \<^verbatim>\<open>v1\<close>: whatever the platform and
  whatever the dependency headers do, the trace is these two definitions
  followed by inclusions only, so the macro is defined under no condition but
  the guard and before any dependency header is included. At line 6, before the
  first include, the macro table is the initial one with these two macros added.
\<close>

theorem version_macro:
  assumes "\<not> is_defined m ''_AbcView_All_h_''"
  shows "\<exists>m' hs. include_All_h eff m =
           Inr (m', Defines ''_AbcView_All_h_'' '''' # Defines ''ABCVIEW_VERSION_NS'' ''v1''
                    # map Includes hs)
         \<and> hs \<noteq> []
         \<and> macros_before_line eff 6 m =
             Some (m(''_AbcView_All_h_'' \<mapsto> '''', ''ABCVIEW_VERSION_NS'' \<mapsto> ''v1''))"
proof -
  have "macros_before_line eff 6 m =
      Some (m(''_AbcView_All_h_'' \<mapsto> '''', ''ABCVIEW_VERSION_NS'' \<mapsto> ''v1''))"
    using assms unfolding macros_before_line_def All_h_parsed initial_def by simp
  moreover have "leading_headers @ platform_headers (darwin_at_test eff m) @ trailing_headers
      \<noteq> []"
    by (simp add: leading_headers_def)
  ultimately show ?thesis
    using first_inclusion [OF assms, of eff] by blast
qed

text \<open>
  The theorem at a build with no macro predefined and dependency headers that
  leave the macro table alone.
\<close>

theorem version_macro_witness:
  "\<not> is_defined Map.empty ''_AbcView_All_h_''
   \<and> (\<exists>m' hs. include_All_h no_effect Map.empty =
           Inr (m', Defines ''_AbcView_All_h_'' '''' # Defines ''ABCVIEW_VERSION_NS'' ''v1''
                    # map Includes hs)
         \<and> hs \<noteq> []
         \<and> macros_before_line no_effect 6 Map.empty =
             Some [''_AbcView_All_h_'' \<mapsto> '''', ''ABCVIEW_VERSION_NS'' \<mapsto> ''v1''])"
  using empty_table_unguarded version_macro [OF empty_table_unguarded, of no_effect]
  by simp

subsection \<open>The include guard\<close>

lemma no_effect_keeps: "keeps_macro no_effect g"
  by (simp add: keeps_macro_def no_effect_def)

lemma fold_keeps_guard:
  assumes "keeps_macro eff g"
    and "is_defined t g"
  shows "is_defined (fold eff hs t) g"
  using assms(2)
proof (induction hs arbitrary: t)
  case Nil
  then show ?case by simp
next
  case (Cons h hs)
  from assms(1) Cons.prems have "is_defined (eff h t) g"
    unfolding keeps_macro_def by blast
  then show ?case using Cons.IH by simp
qed

lemma guard_defined_after:
  assumes keeps: "keeps_macro eff ''_AbcView_All_h_''"
    and incl: "include_All_h eff m = Inr (m', tr)"
  shows "is_defined m' ''_AbcView_All_h_''"
proof (cases "is_defined m ''_AbcView_All_h_''")
  case True
  with incl show ?thesis by (simp add: guarded_inclusion)
next
  case False
  have o: "is_defined (own_macros m) ''_AbcView_All_h_''"
    by (simp add: own_macros_def is_defined_def)
  from incl have "m' = fold eff (leading_headers @ platform_headers (darwin_at_test eff m)
                                 @ trailing_headers) (own_macros m)"
    unfolding first_inclusion [OF False] by (simp del: fold_append)
  then show ?thesis
    using fold_keeps_guard [OF keeps o] by (simp del: fold_append)
qed

lemma include_total: "\<exists>m' tr. include_All_h eff m = Inr (m', tr)"
  by (cases "is_defined m ''_AbcView_All_h_''") (simp_all add: guarded_inclusion first_inclusion)

lemma include_times_guarded:
  assumes "is_defined m ''_AbcView_All_h_''"
  shows "include_times n eff m = Inr (m, [])"
  by (induction n) (simp_all add: guarded_inclusion [OF assms])

lemma guard_of_All_h: "guard_of All_h = Some ''_AbcView_All_h_''"
  unfolding guard_of_def All_h_parsed by simp

text \<open>
  Claim C9. The whole content of the header stands inside the include guard
  \<^verbatim>\<open>_AbcView_All_h_\<close>: the first directive tests it, the second defines it, and the
  last directive of the file is the \<^verbatim>\<open>#endif\<close> of that test. So including the
  header \<open>n\<close> times in a row, for any \<open>n\<close> of at least one, gives the macro
  table and the trace of including it once, provided no dependency header
  undefines the guard macro.
\<close>

theorem inclusion_idempotent:
  assumes "keeps_macro eff ''_AbcView_All_h_''"
    and "0 < n"
  shows "guard_of All_h = Some ''_AbcView_All_h_''
         \<and> include_times n eff m = include_All_h eff m"
proof -
  from assms(2) obtain k where n: "n = Suc k" by (cases n) simp_all
  obtain m' tr where incl: "include_All_h eff m = Inr (m', tr)"
    using include_total by blast
  have "is_defined m' ''_AbcView_All_h_''"
    using guard_defined_after [OF assms(1) incl] .
  then have "include_times k eff m' = Inr (m', [])"
    by (rule include_times_guarded)
  with incl n have "include_times n eff m = include_All_h eff m" by simp
  with guard_of_All_h show ?thesis by simp
qed

text \<open>
  The theorem at three inclusions in a build with no macro predefined and
  dependency headers that leave the macro table alone.
\<close>

theorem inclusion_idempotent_witness:
  "keeps_macro no_effect ''_AbcView_All_h_''
   \<and> (0::nat) < 3
   \<and> guard_of All_h = Some ''_AbcView_All_h_''
   \<and> include_times 3 no_effect Map.empty = include_All_h no_effect Map.empty"
proof -
  have k: "keeps_macro no_effect ''_AbcView_All_h_''"
    by (rule no_effect_keeps)
  have p: "(0::nat) < 3" by simp
  from inclusion_idempotent [OF k p, of Map.empty] k show ?thesis by simp
qed

section \<open>GLEW before every other OpenGL header (claim C10)\<close>



end
